theory Spec2Isabelle
  imports Main "HOL-Library.Word" "HOL-Library.Multiset"
begin

section \<open>JavaScript values carried by a JSON request body\<close>

text \<open>
  A JavaScript string is a sequence of UTF-16 code units. String literals of the source
  are written with \<open>js\<close>; a code unit outside ASCII is written as a number.
\<close>

type_synonym jsstring = "16 word list"

definition js :: "string \<Rightarrow> jsstring" where
  "js s = map (\<lambda>c. of_nat (of_char c)) s"

text \<open>
  The values \<open>express.json()\<close> can put in a field of \<open>req.body\<close>. \<open>JUndefined\<close> is an
  absent field. \<open>JNum\<close> holds an integer-valued number (fractions are not modelled).
  \<open>JObj\<close> is any array or object.
\<close>

datatype jsval = JUndefined | JNull | JBool bool | JNum int | JStr jsstring | JObj

text \<open>JavaScript truthiness, as used by \<open>!v\<close>, \<open>v && ...\<close>, \<open>v || ...\<close> and \<open>if (v)\<close>.\<close>

fun truthy :: "jsval \<Rightarrow> bool" where
  "truthy JUndefined = False"
| "truthy JNull = False"
| "truthy (JBool b) = b"
| "truthy (JNum n) = (n \<noteq> 0)"
| "truthy (JStr s) = (s \<noteq> [])"
| "truthy JObj = True"

text \<open>
  The code units \<open>String.prototype.trim\<close> strips: the WhiteSpace and LineTerminator
  productions of ECMAScript.
\<close>

definition is_ws :: "16 word \<Rightarrow> bool" where
  "is_ws c \<longleftrightarrow>
     c \<in> set [0x9, 0xA, 0xB, 0xC, 0xD, 0x20, 0xA0, 0x1680, 0x2000, 0x2001, 0x2002, 0x2003,
             0x2004, 0x2005, 0x2006, 0x2007, 0x2008, 0x2009, 0x200A, 0x2028, 0x2029, 0x202F,
             0x205F, 0x3000, 0xFEFF]"

definition trim :: "jsstring \<Rightarrow> jsstring" where
  "trim s = rev (dropWhile is_ws (rev (dropWhile is_ws s)))"

text \<open>\<open>[a, b, c].includes(v)\<close> on an array of string literals: only an equal string is found.\<close>

fun array_includes :: "jsstring list \<Rightarrow> jsval \<Rightarrow> bool" where
  "array_includes xs (JStr s) = (s \<in> set xs)"
| "array_includes xs v = False"

section \<open>Library functions the server calls\<close>

text \<open>
  The libraries are not part of the repository; what the handlers need of them is a
  parameter of the model.
  \<^item> \<open>new_Date v\<close> is \<open>new Date(v).getTime()\<close> in milliseconds, \<open>None\<close> when it is NaN;
  \<^item> \<open>pg_text v\<close> is the text node-postgres sends for a bound parameter that is a number,
    a boolean, an array or an object;
  \<^item> \<open>pg_timestamp s\<close> is the instant PostgreSQL reads from the text \<open>s\<close> bound to a
    timestamp column, \<open>None\<close> when it raises;
  \<^item> \<open>pg_date i\<close> is the instant PostgreSQL stores for a \<open>Date\<close> object at \<open>i\<close>
    milliseconds bound to a timestamp column, \<open>None\<close> when it raises (a \<open>Date\<close> reaches
    further into the past than a timestamp does);
  \<^item> \<open>bcrypt_compare p h\<close> is the result of \<open>bcrypt.compare(p, h)\<close> on two strings;
  \<^item> \<open>jwt_sign id email\<close> is the token \<open>jwt.sign\<close> issues for the payload.
\<close>

record lib =
  new_Date :: "jsval \<Rightarrow> int option"
  pg_text :: "jsval \<Rightarrow> jsstring"
  pg_timestamp :: "jsstring \<Rightarrow> int option"
  pg_date :: "int \<Rightarrow> int option"
  bcrypt_compare :: "jsstring \<Rightarrow> jsstring \<Rightarrow> bool"
  jwt_sign :: "nat \<Rightarrow> jsstring \<Rightarrow> jsstring"

text \<open>
  A bound query parameter: \<open>undefined\<close> and \<open>null\<close> are sent as SQL NULL, a string as
  itself, anything else as its text.
\<close>

fun prepareValue :: "lib \<Rightarrow> jsval \<Rightarrow> jsstring option" where
  "prepareValue L JUndefined = None"
| "prepareValue L JNull = None"
| "prepareValue L (JStr s) = Some s"
| "prepareValue L v = Some (pg_text L v)"

text \<open>
  A text parameter as PostgreSQL takes it. node-postgres sends the string in UTF-8, in
  which a surrogate code unit without its partner becomes U+FFFD; PostgreSQL raises on a
  text that contains U+0000, which is \<open>None\<close> here.
\<close>

definition is_high_surrogate :: "16 word \<Rightarrow> bool" where
  "is_high_surrogate c \<longleftrightarrow> 0xD800 \<le> c \<and> c \<le> 0xDBFF"

definition is_low_surrogate :: "16 word \<Rightarrow> bool" where
  "is_low_surrogate c \<longleftrightarrow> 0xDC00 \<le> c \<and> c \<le> 0xDFFF"

fun utf8_text :: "jsstring \<Rightarrow> jsstring" where
  "utf8_text [] = []"
| "utf8_text [c] = (if is_high_surrogate c \<or> is_low_surrogate c then [0xFFFD] else [c])"
| "utf8_text (c # d # cs) =
     (if is_high_surrogate c \<and> is_low_surrogate d then c # d # utf8_text cs
      else if is_high_surrogate c \<or> is_low_surrogate c then 0xFFFD # utf8_text (d # cs)
      else c # utf8_text (d # cs))"

definition pg_in :: "jsstring \<Rightarrow> jsstring option" where
  "pg_in s = (if 0 \<in> set s then None else Some (utf8_text s))"

text \<open>
  A nullable text parameter and a nullable \<open>Date\<close> parameter: the outer \<open>None\<close> is
  PostgreSQL raising, \<open>Some None\<close> is NULL.
\<close>

definition pg_in_nullable :: "jsstring option \<Rightarrow> jsstring option option" where
  "pg_in_nullable v =
     (case v of
        None \<Rightarrow> Some None
      | Some s \<Rightarrow> (case pg_in s of None \<Rightarrow> None | Some s' \<Rightarrow> Some (Some s')))"

definition pg_date_nullable :: "lib \<Rightarrow> int option \<Rightarrow> int option option" where
  "pg_date_nullable L v =
     (case v of
        None \<Rightarrow> Some None
      | Some i \<Rightarrow> (case pg_date L i of None \<Rightarrow> None | Some j \<Rightarrow> Some (Some j)))"

section \<open>The store\<close>

record user_row =
  u_id :: nat
  u_email :: jsstring
  u_password_hash :: jsstring

text \<open>A row of the table \<open>tasks\<close>. Instants are milliseconds; \<open>None\<close> is SQL NULL.\<close>

record task =
  t_id :: nat
  title :: "jsstring option"
  description :: jsstring
  user_id :: nat
  status :: jsstring
  due_date :: "int option"
  reminder_date :: "int option"
  priority :: jsstring
  is_reminder_sent :: bool
  created_at :: int
  updated_at :: int

text \<open>The table \<open>tasks\<close> with the sequence that generates its identifiers.\<close>

record db =
  tasks :: "task list"
  next_id :: nat

section \<open>Responses\<close>

datatype body =
    Msg jsstring
  | Text jsstring
  | Row task
  | Rows "task list"
  | Session jsstring nat jsstring
  | Empty

text \<open>
  \<open>Reply code body\<close> is the response sent. \<open>Uncaught\<close> is a TypeError thrown outside the
  handler's \<open>try\<close> block: the handler's promise rejects and no response is sent.
\<close>

datatype reply = Reply nat body | Uncaught

section \<open>POST /api/auth/login\<close>

record login_body =
  lb_email :: jsval
  lb_password :: jsval

text \<open>
  \<open>SELECT * FROM users WHERE email = $1\<close>: a NULL parameter matches no row; \<open>None\<close> is
  the query raising on the parameter.
\<close>

definition select_user :: "lib \<Rightarrow> user_row list \<Rightarrow> jsval \<Rightarrow> user_row list option" where
  "select_user L us email =
     (case prepareValue L email of
        None \<Rightarrow> Some []
      | Some e \<Rightarrow>
          (case pg_in e of
             None \<Rightarrow> None
           | Some e' \<Rightarrow> Some (filter (\<lambda>u. u_email u = e') us)))"

text \<open>
  The whole handler is inside the \<open>try\<close>. \<open>bcrypt.compare\<close> rejects when the password
  is not a string, and the \<open>catch\<close> answers 500 as it does when the query raises.
\<close>

definition login :: "lib \<Rightarrow> user_row list \<Rightarrow> login_body \<Rightarrow> reply" where
  "login L us b =
     (case select_user L us (lb_email b) of
        None \<Rightarrow> Reply 500 (Text (js ''Erreur serveur''))
      | Some [] \<Rightarrow> Reply 400 (Msg (js ''Email ou mot de passe incorrect.''))
      | Some (user # _) \<Rightarrow>
          (case lb_password b of
             JStr password \<Rightarrow>
               if \<not> bcrypt_compare L password (u_password_hash user)
               then Reply 400 (Msg (js ''Email ou mot de passe incorrect.''))
               else Reply 200 (Session (jwt_sign L (u_id user) (u_email user))
                                       (u_id user) (u_email user))
           | _ \<Rightarrow> Reply 500 (Text (js ''Erreur serveur''))))"

section \<open>The task routes\<close>

text \<open>
  The handlers below are what runs after \<open>authenticateToken\<close> has put the verified
  identity in \<open>req.user\<close>; \<open>uid\<close> is \<open>req.user.id\<close>. The store is taken to be reachable:
  a query raises only where PostgreSQL rejects a parameter, and it then changes nothing.
  The route parameter \<open>:id\<close> is given as the integer PostgreSQL reads from it, \<open>None\<close>
  when the text is not an integer and the query raises.
\<close>

definition not_found_msg :: jsstring where
  "not_found_msg =
     js ''T'' @ [0xE2] @ js ''che non trouv'' @ [0xE9] @ js ''e ou non autoris'' @ [0xE9]
       @ js ''e.''"

text \<open>The text bound for \<open>v || 'lit'\<close>.\<close>

definition text_or :: "lib \<Rightarrow> jsval \<Rightarrow> jsstring \<Rightarrow> jsstring" where
  "text_or L v lit =
     (if truthy v then (case v of JStr s \<Rightarrow> s | _ \<Rightarrow> pg_text L v) else lit)"

text \<open>
  The instant stored for \<open>v || null\<close> bound to a timestamp column: \<open>None\<close> when PostgreSQL
  raises, \<open>Some None\<close> for NULL.
\<close>

definition timestamp_or_null :: "lib \<Rightarrow> jsval \<Rightarrow> int option option" where
  "timestamp_or_null L v =
     (if truthy v
      then (case pg_timestamp L (case v of JStr s \<Rightarrow> s | _ \<Rightarrow> pg_text L v) of
              None \<Rightarrow> None
            | Some i \<Rightarrow> Some (Some i))
      else Some None)"

subsection \<open>GET /api/tasks\<close>



subsection \<open>POST /api/tasks\<close>

record post_body =
  pb_title :: jsval
  pb_description :: jsval
  pb_due_date :: jsval
  pb_reminder_date :: jsval
  pb_priority :: jsval

text \<open>
  Modelled from the spec: the declaration of the table \<open>tasks\<close> is not in the source. As
  the spec's data model says, the identifier is generated and unique, the reminder-sent
  flag defaults to false, and the creation and last-update timestamps are the instant of
  the insertion; no other constraint is put on a column. The status \<open>'todo'\<close> is in the
  statement itself.
\<close>

definition insert_task ::
    "int \<Rightarrow> db \<Rightarrow> jsstring option \<Rightarrow> jsstring \<Rightarrow> nat \<Rightarrow> int option \<Rightarrow> int option \<Rightarrow> jsstring
       \<Rightarrow> task \<times> db" where
  "insert_task now d ti de uid du re pr =
     (let r = \<lparr>t_id = next_id d, title = ti, description = de, user_id = uid,
               status = js ''todo'', due_date = du, reminder_date = re, priority = pr,
               is_reminder_sent = False, created_at = now, updated_at = now\<rparr>
      in (r, d\<lparr>tasks := tasks d @ [r], next_id := Suc (next_id d)\<rparr>))"

definition create_failed_msg :: jsstring where
  "create_failed_msg =
     js ''Erreur serveur lors de la cr'' @ [0xE9] @ js ''ation de la t'' @ [0xE2] @ js ''che''"

text \<open>
  The six parameters of the INSERT as PostgreSQL takes them, \<open>None\<close> when it raises on
  one of them.
\<close>

definition insert_values ::
    "lib \<Rightarrow> post_body
       \<Rightarrow> (jsstring option \<times> jsstring \<times> int option \<times> int option \<times> jsstring) option" where
  "insert_values L b =
     (case pg_in_nullable (prepareValue L (pb_title b)) of
        None \<Rightarrow> None
      | Some ti \<Rightarrow>
     (case pg_in (text_or L (pb_description b) []) of
        None \<Rightarrow> None
      | Some de \<Rightarrow>
     (case timestamp_or_null L (pb_due_date b) of
        None \<Rightarrow> None
      | Some du \<Rightarrow>
     (case timestamp_or_null L (pb_reminder_date b) of
        None \<Rightarrow> None
      | Some re \<Rightarrow>
     (case pg_in (text_or L (pb_priority b) (js ''medium'')) of
        None \<Rightarrow> None
      | Some pr \<Rightarrow> Some (ti, de, du, re, pr))))))"

definition post_task :: "lib \<Rightarrow> int \<Rightarrow> db \<Rightarrow> nat \<Rightarrow> post_body \<Rightarrow> reply \<times> db" where
  "post_task L now d uid b =
     (case insert_values L b of
        None \<Rightarrow> (Reply 500 (Msg create_failed_msg), d)
      | Some (ti, de, du, re, pr) \<Rightarrow>
          (case insert_task now d ti de uid du re pr of
             (r, d') \<Rightarrow> (Reply 201 (Row r), d')))"

subsection \<open>PUT /api/tasks/:id\<close>

record put_body =
  ub_title :: jsval
  ub_description :: jsval
  ub_status :: jsval
  ub_due_date :: jsval
  ub_reminder_date :: jsval
  ub_priority :: jsval

text \<open>
  \<open>if (v) { parsed = new Date(v); if (isNaN(parsed.getTime())) return ... }\<close>:
  \<open>None\<close> is the early return, \<open>Some None\<close> the initial \<open>null\<close>.
\<close>

definition parse_date :: "lib \<Rightarrow> jsval \<Rightarrow> int option option" where
  "parse_date L v =
     (if truthy v
      then (case new_Date L v of None \<Rightarrow> None | Some i \<Rightarrow> Some (Some i))
      else Some None)"

text \<open>
  The validation block, which is outside the \<open>try\<close>. On a truthy title that is not a
  string, \<open>title.trim\<close> is not a function and the call throws. A request that passes
  yields the trimmed title and the two parsed dates.
\<close>

definition put_validate ::
    "lib \<Rightarrow> put_body \<Rightarrow> reply + (jsstring \<times> int option \<times> int option)" where
  "put_validate L b =
     (if \<not> truthy (ub_title b) then Inl (Reply 400 (Msg (js ''Le titre est requis.'')))
      else
        (case ub_title b of
           JStr t \<Rightarrow>
             if trim t = [] then Inl (Reply 400 (Msg (js ''Le titre est requis.'')))
             else if \<not> truthy (ub_status b)
                     \<or> \<not> array_includes [js ''todo'', js ''in-progress'', js ''done'']
                           (ub_status b)
             then Inl (Reply 400 (Msg (js ''Statut invalide.'')))
             else if truthy (ub_priority b)
                     \<and> \<not> array_includes [js ''low'', js ''medium'', js ''high'']
                           (ub_priority b)
             then Inl (Reply 400 (Msg (js ''Priorit'' @ [0xE9] @ js '' invalide.'')))
             else
               (case parse_date L (ub_due_date b) of
                  None \<Rightarrow>
                    Inl (Reply 400 (Msg (js ''Date d'' @ [0x27, 0xE9] @ js ''ch'' @ [0xE9]
                                          @ js ''ance invalide.'')))
                | Some parsedDueDate \<Rightarrow>
                    (case parse_date L (ub_reminder_date b) of
                       None \<Rightarrow> Inl (Reply 400 (Msg (js ''Date de rappel invalide.'')))
                     | Some parsedReminderDate \<Rightarrow>
                         Inr (trim t, parsedDueDate, parsedReminderDate)))
         | _ \<Rightarrow> Inl Uncaught))"

definition is_task :: "nat \<Rightarrow> nat \<Rightarrow> task \<Rightarrow> bool" where
  "is_task i uid t \<longleftrightarrow> t_id t = i \<and> user_id t = uid"

definition update_failed_msg :: jsstring where
  "update_failed_msg =
     js ''Erreur serveur lors de la mise '' @ [0xE0] @ js '' jour de la t'' @ [0xE2]
       @ js ''che''"

text \<open>
  The assignment of the UPDATE with its six parameters as PostgreSQL takes them, \<open>None\<close>
  when it raises on one of them. The status is a validated string where the statement
  runs.
\<close>

definition update_values ::
    "lib \<Rightarrow> int \<Rightarrow> put_body \<Rightarrow> jsstring \<Rightarrow> int option \<Rightarrow> int option \<Rightarrow> (task \<Rightarrow> task) option"
    where
  "update_values L now b t parsedDueDate parsedReminderDate =
     (case pg_in t of
        None \<Rightarrow> None
      | Some ti \<Rightarrow>
     (case pg_in (text_or L (ub_description b) []) of
        None \<Rightarrow> None
      | Some de \<Rightarrow>
     (case pg_in (text_or L (ub_status b) []) of
        None \<Rightarrow> None
      | Some st \<Rightarrow>
     (case pg_date_nullable L parsedDueDate of
        None \<Rightarrow> None
      | Some du \<Rightarrow>
     (case pg_date_nullable L parsedReminderDate of
        None \<Rightarrow> None
      | Some re \<Rightarrow>
     (case pg_in (text_or L (ub_priority b) (js ''medium'')) of
        None \<Rightarrow> None
      | Some pr \<Rightarrow>
          Some (\<lambda>x. x\<lparr>title := Some ti, description := de, status := st, due_date := du,
                       reminder_date := re, priority := pr, updated_at := now\<rparr>)))))))"

text \<open>
  The lookup and the UPDATE of the \<open>try\<close> block. The rows of \<open>RETURNING *\<close> are the rows
  as updated.
\<close>

definition put_task ::
    "lib \<Rightarrow> int \<Rightarrow> db \<Rightarrow> nat \<Rightarrow> nat option \<Rightarrow> put_body \<Rightarrow> reply \<times> db" where
  "put_task L now d uid idp b =
     (case put_validate L b of
        Inl r \<Rightarrow> (r, d)
      | Inr (t, parsedDueDate, parsedReminderDate) \<Rightarrow>
          (case idp of
             None \<Rightarrow> (Reply 500 (Msg update_failed_msg), d)
           | Some i \<Rightarrow>
               if filter (is_task i uid) (tasks d) = []
               then (Reply 404 (Msg not_found_msg), d)
               else
                 (case update_values L now b t parsedDueDate parsedReminderDate of
                    None \<Rightarrow> (Reply 500 (Msg update_failed_msg), d)
                  | Some set_row \<Rightarrow>
                      (let d' = d\<lparr>tasks := map (\<lambda>x. if is_task i uid x then set_row x else x)
                                               (tasks d)\<rparr>
                       in (case map set_row (filter (is_task i uid) (tasks d)) of
                             [] \<Rightarrow> (Reply 404 (Msg not_found_msg), d')
                           | r # _ \<Rightarrow> (Reply 200 (Row r), d'))))))"

subsection \<open>DELETE /api/tasks/:id\<close>

definition delete_task :: "db \<Rightarrow> nat \<Rightarrow> nat option \<Rightarrow> reply \<times> db" where
  "delete_task d uid idp =
     (case idp of
        None \<Rightarrow> (Reply 500 (Msg (js ''Erreur serveur lors de la suppression'')), d)
      | Some i \<Rightarrow>
          (let rowCount = length (filter (is_task i uid) (tasks d));
               d' = d\<lparr>tasks := filter (\<lambda>x. \<not> is_task i uid x) (tasks d)\<rparr>
           in if rowCount = 0 then (Reply 404 (Msg not_found_msg), d')
              else (Reply 204 Empty, d')))"

subsection \<open>GET /api/tasks/due-soon and GET /api/tasks/reminders\<close>

text \<open>
  \<open>ORDER BY col ASC\<close> on a nullable timestamp: NULL sorts last. SQL does not fix the
  order of rows with equal keys; the model keeps them in table order.
\<close>

fun ts_le :: "int option \<Rightarrow> int option \<Rightarrow> bool" where
  "ts_le _ None = True"
| "ts_le None (Some _) = False"
| "ts_le (Some a) (Some b) = (a \<le> b)"

fun insert_by :: "(task \<Rightarrow> int option) \<Rightarrow> task \<Rightarrow> task list \<Rightarrow> task list" where
  "insert_by k x [] = [x]"
| "insert_by k x (y # ys) = (if ts_le (k x) (k y) then x # y # ys else y # insert_by k x ys)"

definition order_by :: "(task \<Rightarrow> int option) \<Rightarrow> task list \<Rightarrow> task list" where
  "order_by k xs = foldr (insert_by k) xs []"

text \<open>\<open>col IS NOT NULL AND col <= bound\<close>.\<close>

fun not_null_le :: "int option \<Rightarrow> int \<Rightarrow> bool" where
  "not_null_le None bound = False"
| "not_null_le (Some x) bound = (x \<le> bound)"

definition due_soon_row :: "int \<Rightarrow> nat \<Rightarrow> task \<Rightarrow> bool" where
  "due_soon_row now uid t \<longleftrightarrow>
     user_id t = uid \<and> not_null_le (due_date t) (now + 24 * 3600000)
       \<and> status t \<noteq> js ''done''"

definition get_due_soon :: "int \<Rightarrow> db \<Rightarrow> nat \<Rightarrow> reply" where
  "get_due_soon now d uid =
     Reply 200 (Rows (order_by due_date (filter (due_soon_row now uid) (tasks d))))"

definition reminder_row :: "int \<Rightarrow> nat \<Rightarrow> task \<Rightarrow> bool" where
  "reminder_row now uid t \<longleftrightarrow>
     user_id t = uid \<and> not_null_le (reminder_date t) now \<and> is_reminder_sent t = False
       \<and> status t \<noteq> js ''done''"

definition get_reminders :: "int \<Rightarrow> db \<Rightarrow> nat \<Rightarrow> reply" where
  "get_reminders now d uid =
     Reply 200 (Rows (order_by reminder_date (filter (reminder_row now uid) (tasks d))))"

subsection \<open>POST /api/tasks/:id/mark-reminder-sent\<close>

definition mark_reminder_sent :: "db \<Rightarrow> nat \<Rightarrow> nat option \<Rightarrow> reply \<times> db" where
  "mark_reminder_sent d uid idp =
     (case idp of
        None \<Rightarrow> (Reply 500 (Text (js ''Erreur serveur'')), d)
      | Some i \<Rightarrow>
          (let set_row = (\<lambda>x. x\<lparr>is_reminder_sent := True\<rparr>);
               d' = d\<lparr>tasks := map (\<lambda>x. if is_task i uid x then set_row x else x) (tasks d)\<rparr>
           in (case map set_row (filter (is_task i uid) (tasks d)) of
                 [] \<Rightarrow> (Reply 404 (Msg not_found_msg), d')
               | r # _ \<Rightarrow> (Reply 200 (Row r), d'))))"

text \<open>The table after the UPDATE of \<open>mark_reminder_sent\<close>.\<close>

definition mark_rows :: "nat \<Rightarrow> nat \<Rightarrow> task list \<Rightarrow> task list" where
  "mark_rows i uid xs =
     map (\<lambda>x. if is_task i uid x then x\<lparr>is_reminder_sent := True\<rparr> else x) xs"

text \<open>The primary key of the table: no two rows share an identifier.\<close>

definition unique_ids :: "db \<Rightarrow> bool" where
  "unique_ids d \<longleftrightarrow> distinct (map t_id (tasks d))"

text \<open>
  What holds of every table the routes can produce from an empty one: the identifiers are
  unique and below the next value of the sequence.
\<close>

definition store_ok :: "db \<Rightarrow> bool" where
  "store_ok d \<longleftrightarrow> unique_ids d \<and> list_all (\<lambda>i. i < next_id d) (map t_id (tasks d))"

section \<open>The client's notifications (App.js)\<close>

text \<open>
  The client holds the rows the server sent; \<open>new Date(s)\<close> of a timestamp the server
  wrote is the instant itself, and a column is truthy exactly when it is not null. One
  pass of \<open>checkReminders\<close> is taken to read the clock once, as \<open>now\<close>.
\<close>

record notification =
  n_id :: nat
  message :: jsstring
  n_type :: jsstring

definition isOverdue :: "int \<Rightarrow> int option \<Rightarrow> bool" where
  "isOverdue now dueDate = (case dueDate of None \<Rightarrow> False | Some due \<Rightarrow> due < now)"

text \<open>\<open>diffHours > 0 && diffHours <= 24\<close>, with \<open>diffHours\<close> the difference over 3600000.\<close>

definition isDueSoon :: "int \<Rightarrow> int option \<Rightarrow> bool" where
  "isDueSoon now dueDate =
     (case dueDate of None \<Rightarrow> False | Some due \<Rightarrow> 0 < due - now \<and> due - now \<le> 24 * 3600000)"

text \<open>\<open>${task.title}\<close> in a template literal.\<close>

definition title_text :: "task \<Rightarrow> jsstring" where
  "title_text t = (case title t of None \<Rightarrow> js ''null'' | Some s \<Rightarrow> s)"

text \<open>The body of the \<open>forEach\<close> in \<open>checkReminders\<close>: what one task pushes.\<close>

definition task_notifications :: "int \<Rightarrow> task \<Rightarrow> notification list" where
  "task_notifications now t =
     (if reminder_date t \<noteq> None \<and> \<not> is_reminder_sent t \<and> status t \<noteq> js ''done''
      then (if not_null_le (reminder_date t) now
            then [\<lparr>n_id = t_id t, message = js ''Rappel: '' @ title_text t,
                   n_type = js ''reminder''\<rparr>]
            else [])
      else [])
     @
     (if due_date t \<noteq> None \<and> status t \<noteq> js ''done''
      then (if isOverdue now (due_date t)
            then [\<lparr>n_id = t_id t, message = js ''En retard: '' @ title_text t,
                   n_type = js ''overdue''\<rparr>]
            else if isDueSoon now (due_date t)
            then [\<lparr>n_id = t_id t,
                   message = [0xC9] @ js ''ch'' @ [0xE9] @ js ''ance proche: '' @ title_text t,
                   n_type = js ''due-soon''\<rparr>]
            else [])
      else [])"

text \<open>\<open>checkReminders\<close> as a function of the previous \<open>notifications\<close> state.\<close>

definition checkReminders :: "int \<Rightarrow> task list \<Rightarrow> notification list \<Rightarrow> notification list" where
  "checkReminders now currentTasks prev =
     (let newNotifications = concat (map (task_notifications now) currentTasks)
      in if length newNotifications > 0 then prev @ newNotifications else prev)"

definition dismissNotification :: "nat \<Rightarrow> notification list \<Rightarrow> notification list" where
  "dismissNotification notificationId prev = filter (\<lambda>n. n_id n \<noteq> notificationId) prev"

text \<open>The card's \<open>onDismiss\<close>: \<open>() => dismissNotification(notification.id)\<close>.\<close>

definition onDismiss :: "notification \<Rightarrow> notification list \<Rightarrow> notification list" where
  "onDismiss n prev = dismissNotification (n_id n) prev"

section \<open>The conditions of the update's validation\<close>

text \<open>
  The conditions under which the specification lists the failures of an update, on the
  fields of the request: the title is missing (absent, null or another falsy value) or
  a string that is blank after trimming; the title is a string that is not blank; the
  status is one of the three; the priority is absent (falsy) or one of the three; a date
  is absent (falsy) or parses.
\<close>

definition title_missing_or_blank :: "jsval \<Rightarrow> bool" where
  "title_missing_or_blank v = (case v of JStr t \<Rightarrow> trim t = [] | _ \<Rightarrow> \<not> truthy v)"

definition title_present :: "jsval \<Rightarrow> bool" where
  "title_present v = (case v of JStr t \<Rightarrow> trim t \<noteq> [] | _ \<Rightarrow> False)"

definition status_in_enum :: "jsval \<Rightarrow> bool" where
  "status_in_enum v \<longleftrightarrow> v \<in> set (map JStr [js ''todo'', js ''in-progress'', js ''done''])"

definition priority_acceptable :: "jsval \<Rightarrow> bool" where
  "priority_acceptable v \<longleftrightarrow>
     \<not> truthy v \<or> v \<in> set (map JStr [js ''low'', js ''medium'', js ''high''])"

definition date_acceptable :: "lib \<Rightarrow> jsval \<Rightarrow> bool" where
  "date_acceptable L v \<longleftrightarrow> \<not> truthy v \<or> new_Date L v \<noteq> None"

section \<open>Example values\<close>

text \<open>
  A stand-in for the libraries, used where a property is run on a concrete request: a
  number is a date at that many milliseconds and nothing else parses, a date is stored
  as it is unless it lies before the earliest timestamp of PostgreSQL, and a password
  \<open>p\<close> matches the hash \<open>h:p\<close>.
\<close>

definition ex_lib :: lib where
  "ex_lib =
     \<lparr>new_Date = (\<lambda>v. case v of JNum n \<Rightarrow> Some n | _ \<Rightarrow> None),
      pg_text = (\<lambda>v. []),
      pg_timestamp = (\<lambda>s. None),
      pg_date = (\<lambda>i. if - 210866803200000 \<le> i then Some i else None),
      bcrypt_compare = (\<lambda>p h. js ''h:'' @ p = h),
      jwt_sign = (\<lambda>i e. e)\<rparr>"

definition ex_users :: "user_row list" where
  "ex_users = [\<lparr>u_id = 1, u_email = js ''a@x.org'', u_password_hash = js ''h:secret''\<rparr>]"

definition ex_task :: task where
  "ex_task =
     \<lparr>t_id = 1, title = Some (js ''a''), description = js ''d'', user_id = 1,
      status = js ''todo'', due_date = Some 0, reminder_date = Some 0,
      priority = js ''high'', is_reminder_sent = False, created_at = 0, updated_at = 0\<rparr>"

definition ex_db :: db where
  "ex_db = \<lparr>tasks = [ex_task], next_id = 2\<rparr>"


definition ex_post :: post_body where
  "ex_post =
     \<lparr>pb_title = JStr (js ''   ''), pb_description = JUndefined, pb_due_date = JUndefined,
      pb_reminder_date = JUndefined, pb_priority = JUndefined\<rparr>"

section \<open>Ordering of query results\<close>

lemma mset_insert_by: "mset (insert_by k x xs) = add_mset x (mset xs)"
  by (induction xs) auto

lemma mset_order_by: "mset (order_by k xs) = mset xs"
  by (induction xs) (auto simp: order_by_def mset_insert_by)

lemma ts_le_total: "ts_le a b \<or> ts_le b a"
  by (cases a; cases b) auto

lemma ts_le_trans: "ts_le a b \<Longrightarrow> ts_le b c \<Longrightarrow> ts_le a c"
  by (cases a; cases b; cases c) auto

lemma set_insert_by: "set (insert_by k x xs) = insert x (set xs)"
  by (induction xs) auto

lemma sorted_insert_by:
  "sorted_wrt (\<lambda>a b. ts_le (k a) (k b)) xs \<Longrightarrow>
   sorted_wrt (\<lambda>a b. ts_le (k a) (k b)) (insert_by k x xs)"
proof (induction xs)
  case Nil
  then show ?case by simp
next
  case (Cons y ys)
  show ?case
  proof (cases "ts_le (k x) (k y)")
    case True
    with Cons.prems show ?thesis
      by (auto intro: ts_le_trans)
  next
    case False
    then have "ts_le (k y) (k x)"
      using ts_le_total by blast
    with False Cons show ?thesis
      by (auto simp: set_insert_by)
  qed
qed

lemma sorted_order_by: "sorted_wrt (\<lambda>a b. ts_le (k a) (k b)) (order_by k xs)"
proof (induction xs)
  case Nil
  then show ?case by (simp add: order_by_def)
next
  case (Cons x xs)
  then show ?case
    using sorted_insert_by [of k "order_by k xs" x] by (simp add: order_by_def)
qed

section \<open>Validation of an update\<close>

lemma trim_Nil [simp]: "trim [] = []"
  by (simp add: trim_def)

lemma status_check:
  "(\<not> truthy v \<or> \<not> array_includes [js ''todo'', js ''in-progress'', js ''done''] v)
     = (\<not> status_in_enum v)"
  by (cases v) (auto simp: status_in_enum_def js_def)

lemma priority_check:
  "(truthy v \<and> \<not> array_includes [js ''low'', js ''medium'', js ''high''] v)
     = (\<not> priority_acceptable v)"
  by (cases v) (auto simp: priority_acceptable_def js_def)

lemma parse_date_None: "(parse_date L v = None) = (\<not> date_acceptable L v)"
  by (auto simp: parse_date_def date_acceptable_def split: option.splits)

lemma parse_date_Some: "parse_date L v = Some y \<Longrightarrow> date_acceptable L v"
  by (auto simp: parse_date_def date_acceptable_def split: option.splits if_splits)

lemma title_present_cases:
  "title_present v \<Longrightarrow> \<exists>t. v = JStr t \<and> trim t \<noteq> [] \<and> truthy v"
  by (cases v) (auto simp: title_present_def)

lemma put_validate_cases:
  "put_validate L b =
     (if title_missing_or_blank (ub_title b)
      then Inl (Reply 400 (Msg (js ''Le titre est requis.'')))
      else
        (case ub_title b of
           JStr t \<Rightarrow>
             if \<not> status_in_enum (ub_status b)
             then Inl (Reply 400 (Msg (js ''Statut invalide.'')))
             else if \<not> priority_acceptable (ub_priority b)
             then Inl (Reply 400 (Msg (js ''Priorit'' @ [0xE9] @ js '' invalide.'')))
             else
               (case parse_date L (ub_due_date b) of
                  None \<Rightarrow>
                    Inl (Reply 400 (Msg (js ''Date d'' @ [0x27, 0xE9] @ js ''ch'' @ [0xE9]
                                          @ js ''ance invalide.'')))
                | Some parsedDueDate \<Rightarrow>
                    (case parse_date L (ub_reminder_date b) of
                       None \<Rightarrow> Inl (Reply 400 (Msg (js ''Date de rappel invalide.'')))
                     | Some parsedReminderDate \<Rightarrow>
                         Inr (trim t, parsedDueDate, parsedReminderDate)))
         | _ \<Rightarrow> Inl Uncaught))"
  unfolding put_validate_def status_check priority_check
  by (cases "ub_title b") (auto simp: title_missing_or_blank_def)

lemma title_present_not_blank: "title_present v \<Longrightarrow> \<not> title_missing_or_blank v"
  by (cases v) (auto simp: title_present_def title_missing_or_blank_def)

lemma put_validate_title:
  "title_missing_or_blank (ub_title b) \<Longrightarrow>
     put_validate L b = Inl (Reply 400 (Msg (js ''Le titre est requis.'')))"
  by (simp add: put_validate_cases)

lemma put_validate_status:
  "title_present (ub_title b) \<Longrightarrow> \<not> status_in_enum (ub_status b) \<Longrightarrow>
     put_validate L b = Inl (Reply 400 (Msg (js ''Statut invalide.'')))"
  by (frule title_present_cases) (auto simp: put_validate_cases title_present_not_blank)

lemma put_validate_priority:
  "title_present (ub_title b) \<Longrightarrow> status_in_enum (ub_status b) \<Longrightarrow>
   \<not> priority_acceptable (ub_priority b) \<Longrightarrow>
     put_validate L b = Inl (Reply 400 (Msg (js ''Priorit'' @ [0xE9] @ js '' invalide.'')))"
  by (frule title_present_cases) (auto simp: put_validate_cases title_present_not_blank)

lemma put_validate_due:
  "title_present (ub_title b) \<Longrightarrow> status_in_enum (ub_status b) \<Longrightarrow>
   priority_acceptable (ub_priority b) \<Longrightarrow> \<not> date_acceptable L (ub_due_date b) \<Longrightarrow>
     put_validate L b =
       Inl (Reply 400 (Msg (js ''Date d'' @ [0x27, 0xE9] @ js ''ch'' @ [0xE9]
                             @ js ''ance invalide.'')))"
  by (frule title_present_cases)
     (auto simp: put_validate_cases title_present_not_blank parse_date_None
           split: option.splits dest: parse_date_Some)

lemma put_validate_reminder:
  "title_present (ub_title b) \<Longrightarrow> status_in_enum (ub_status b) \<Longrightarrow>
   priority_acceptable (ub_priority b) \<Longrightarrow> date_acceptable L (ub_due_date b) \<Longrightarrow>
   \<not> date_acceptable L (ub_reminder_date b) \<Longrightarrow>
     put_validate L b = Inl (Reply 400 (Msg (js ''Date de rappel invalide.'')))"
  by (frule title_present_cases)
     (auto simp: put_validate_cases title_present_not_blank parse_date_None
           split: option.splits dest: parse_date_Some)

lemma put_validate_pass:
  "title_present (ub_title b) \<Longrightarrow> status_in_enum (ub_status b) \<Longrightarrow>
   priority_acceptable (ub_priority b) \<Longrightarrow> date_acceptable L (ub_due_date b) \<Longrightarrow>
   date_acceptable L (ub_reminder_date b) \<Longrightarrow>
     \<exists>v. put_validate L b = Inr v"
  by (frule title_present_cases)
     (auto simp: put_validate_cases title_present_not_blank parse_date_None
           split: option.splits dest: parse_date_Some)

lemma put_task_invalid: "put_validate L b = Inl r \<Longrightarrow> put_task L now d uid idp b = (r, d)"
  by (simp add: put_task_def)

lemma put_task_not_owned:
  "put_validate L b = Inr v \<Longrightarrow> filter (is_task i uid) (tasks d) = [] \<Longrightarrow>
     put_task L now d uid (Some i) b = (Reply 404 (Msg not_found_msg), d)"
  by (cases v) (simp add: put_task_def)


section \<open>Rows selected by identifier and owner\<close>








lemma owner_one_row:
  "distinct (map t_id xs) \<Longrightarrow> t \<in> set xs \<Longrightarrow> user_id t = uid \<Longrightarrow>
     filter (is_task (t_id t) uid) xs = [t]"
proof (induction xs)
  case Nil
  then show ?case by simp
next
  case (Cons x xs)
  show ?case
  proof (cases "x = t")
    case True
    have "t_id t \<notin> t_id ` set xs"
      using Cons.prems(1) True by simp
    then have "\<forall>y \<in> set xs. \<not> is_task (t_id t) uid y"
      by (auto simp: is_task_def image_iff)
    then have "filter (is_task (t_id t) uid) xs = []"
      by (simp add: filter_empty_conv)
    moreover have "is_task (t_id t) uid t"
      using Cons.prems(3) by (simp add: is_task_def)
    ultimately show ?thesis
      using True by simp
  next
    case False
    with Cons.prems have "t \<in> set xs" and "t_id x \<noteq> t_id t"
      by auto
    moreover from this have "\<not> is_task (t_id t) uid x"
      by (simp add: is_task_def)
    ultimately show ?thesis
      using Cons by simp
  qed
qed

lemma mark_rows_idem: "mark_rows i uid (mark_rows i uid xs) = mark_rows i uid xs"
  by (induction xs) (auto simp: mark_rows_def is_task_def)

lemma mark_rows_ids: "map t_id (mark_rows i uid xs) = map t_id xs"
  by (induction xs) (auto simp: mark_rows_def)

lemma mark_rows_mem:
  "t \<in> set xs \<Longrightarrow> user_id t = uid \<Longrightarrow>
     t\<lparr>is_reminder_sent := True\<rparr> \<in> set (mark_rows (t_id t) uid xs)"
  by (induction xs) (auto simp: mark_rows_def is_task_def)

lemma mark_rows_flags:
  "list_all2 (\<lambda>x y. is_reminder_sent x \<longrightarrow> is_reminder_sent y) xs (mark_rows i uid xs)"
  by (induction xs) (auto simp: mark_rows_def)

lemma mark_rows_frame:
  "list_all2 (\<lambda>x y. y = x \<or> y = x\<lparr>is_reminder_sent := True\<rparr>) xs (mark_rows i uid xs)"
  by (induction xs) (auto simp: mark_rows_def)

lemma mark_reminder_sent_db:
  "snd (mark_reminder_sent d uid idp) =
     (case idp of None \<Rightarrow> d | Some i \<Rightarrow> d\<lparr>tasks := mark_rows i uid (tasks d)\<rparr>)"
  by (auto simp: mark_reminder_sent_def mark_rows_def Let_def split: option.splits list.splits)

lemma mark_reminder_sent_owned:
  assumes "unique_ids d" and "t \<in> set (tasks d)" and "user_id t = uid"
  shows "mark_reminder_sent d uid (Some (t_id t)) =
           (Reply 200 (Row (t\<lparr>is_reminder_sent := True\<rparr>)),
            d\<lparr>tasks := mark_rows (t_id t) uid (tasks d)\<rparr>)"
  using owner_one_row [of "tasks d" t uid] assms
  by (simp add: mark_reminder_sent_def mark_rows_def unique_ids_def Let_def)

section \<open>The routes keep the identifiers unique\<close>

lemma store_ok_empty: "store_ok \<lparr>tasks = [], next_id = n\<rparr>"
  by (simp add: store_ok_def unique_ids_def)

lemma store_ok_unique_ids: "store_ok d \<Longrightarrow> unique_ids d"
  by (simp add: store_ok_def)

lemma post_task_store_ok: "store_ok d \<Longrightarrow> store_ok (snd (post_task L now d uid b))"
  by (auto simp: post_task_def insert_task_def Let_def store_ok_def unique_ids_def
        list_all_iff split: option.splits)

lemma update_values_Some:
  assumes "update_values L now b t pd pr = Some f"
  shows "\<exists>ti de st du re pri.
           pg_in t = Some ti
         \<and> pg_in (text_or L (ub_description b) []) = Some de
         \<and> pg_in (text_or L (ub_status b) []) = Some st
         \<and> pg_date_nullable L pd = Some du
         \<and> pg_date_nullable L pr = Some re
         \<and> pg_in (text_or L (ub_priority b) (js ''medium'')) = Some pri
         \<and> f = (\<lambda>x. x\<lparr>title := Some ti, description := de, status := st, due_date := du,
                          reminder_date := re, priority := pri, updated_at := now\<rparr>)"
  using assms by (auto simp: update_values_def split: option.splits)

lemma update_values_id: "update_values L now b t pd pr = Some f \<Longrightarrow> t_id (f x) = t_id x"
  by (drule update_values_Some) auto

lemma put_task_ids:
  "map t_id (tasks (snd (put_task L now d uid idp b))) = map t_id (tasks d)
     \<and> next_id (snd (put_task L now d uid idp b)) = next_id d"
  by (auto simp: put_task_def Let_def o_def update_values_id
           split: sum.splits option.splits list.splits intro!: map_cong)

lemma put_task_store_ok: "store_ok d \<Longrightarrow> store_ok (snd (put_task L now d uid idp b))"
  using put_task_ids [of L now d uid idp b] by (simp add: store_ok_def unique_ids_def)

lemma delete_task_store_ok: "store_ok d \<Longrightarrow> store_ok (snd (delete_task d uid idp))"
  by (auto simp: delete_task_def Let_def store_ok_def unique_ids_def distinct_map_filter
        list_all_iff split: option.splits)

lemma mark_reminder_sent_store_ok:
  "store_ok d \<Longrightarrow> store_ok (snd (mark_reminder_sent d uid idp))"
  by (cases idp)
     (simp_all add: mark_reminder_sent_db store_ok_def unique_ids_def mark_rows_ids)

section \<open>A successful update\<close>





section \<open>Parameters PostgreSQL takes\<close>

lemma pg_in_Nil: "pg_in [] = Some []"
  by (simp add: pg_in_def)

lemma pg_in_medium: "pg_in (js ''medium'') = Some (js ''medium'')"
  by (simp add: pg_in_def js_def is_high_surrogate_def is_low_surrogate_def)

lemma text_or_absent: "text_or L JUndefined lit = lit"
  by (simp add: text_or_def)

lemma insert_values_title_only:
  "insert_values L
     \<lparr>pb_title = JStr s, pb_description = JUndefined, pb_due_date = JUndefined,
      pb_reminder_date = JUndefined, pb_priority = JUndefined\<rparr> =
     (if 0 \<in> set s then None else Some (Some (utf8_text s), [], None, None, js ''medium''))"
proof -
  have "pg_in_nullable (Some s) = (if 0 \<in> set s then None else Some (Some (utf8_text s)))"
    by (simp add: pg_in_nullable_def pg_in_def)
  then show ?thesis
    by (simp add: insert_values_def text_or_absent timestamp_or_null_def pg_in_Nil
          pg_in_medium)
qed

section \<open>Further properties of the routes\<close>

text \<open>
  For a title that is absent, falsy or a string, the validation of an update reports the
  first failure in the order title, status, priority, due date, reminder date; a request
  that fails it leaves the store as it was and gets the same response whatever the
  store, the user and the identifier are.
\<close>

lemma put_validation_order:
  "(title_missing_or_blank (ub_title b) \<longrightarrow>
      put_validate L b = Inl (Reply 400 (Msg (js ''Le titre est requis.''))))
   \<and> (title_present (ub_title b) \<and> \<not> status_in_enum (ub_status b) \<longrightarrow>
      put_validate L b = Inl (Reply 400 (Msg (js ''Statut invalide.''))))
   \<and> (title_present (ub_title b) \<and> status_in_enum (ub_status b)
        \<and> \<not> priority_acceptable (ub_priority b) \<longrightarrow>
      put_validate L b = Inl (Reply 400 (Msg (js ''Priorit'' @ [0xE9] @ js '' invalide.''))))
   \<and> (title_present (ub_title b) \<and> status_in_enum (ub_status b)
        \<and> priority_acceptable (ub_priority b) \<and> \<not> date_acceptable L (ub_due_date b) \<longrightarrow>
      put_validate L b =
        Inl (Reply 400 (Msg (js ''Date d'' @ [0x27, 0xE9] @ js ''ch'' @ [0xE9]
                              @ js ''ance invalide.''))))
   \<and> (title_present (ub_title b) \<and> status_in_enum (ub_status b)
        \<and> priority_acceptable (ub_priority b) \<and> date_acceptable L (ub_due_date b)
        \<and> \<not> date_acceptable L (ub_reminder_date b) \<longrightarrow>
      put_validate L b = Inl (Reply 400 (Msg (js ''Date de rappel invalide.''))))
   \<and> (title_present (ub_title b) \<and> status_in_enum (ub_status b)
        \<and> priority_acceptable (ub_priority b) \<and> date_acceptable L (ub_due_date b)
        \<and> date_acceptable L (ub_reminder_date b) \<longrightarrow>
      (\<exists>v. put_validate L b = Inr v))
   \<and> (\<forall>r. put_validate L b = Inl r \<longrightarrow> put_task L now d uid idp b = (r, d))
   \<and> ((\<exists>v. put_validate L b = Inr v) \<and> filter (is_task i uid) (tasks d) = [] \<longrightarrow>
      put_task L now d uid (Some i) b = (Reply 404 (Msg not_found_msg), d))"
  using put_validate_title [of b L] put_validate_status [of b L]
    put_validate_priority [of b L] put_validate_due [of b L] put_validate_reminder [of b L]
    put_validate_pass [of b L] put_task_invalid [of L b _ now d uid idp]
    put_task_not_owned [of L b _ i uid d now]
  by blast

text \<open>
  The due-soon route returns exactly the owner's rows whose due date is not null and at
  most 24 hours after now and whose status is not done, ordered by due date ascending.
\<close>

lemma due_soon_rows:
  "\<exists>rs. get_due_soon now d uid = Reply 200 (Rows rs)
      \<and> mset rs = mset (filter (\<lambda>t. user_id t = uid
                                 \<and> (\<exists>due. due_date t = Some due \<and> due \<le> now + 24 * 3600000)
                                 \<and> status t \<noteq> js ''done'') (tasks d))
      \<and> sorted_wrt (\<lambda>a b. ts_le (due_date a) (due_date b)) rs"
proof -
  have "due_soon_row now uid = (\<lambda>t. user_id t = uid
           \<and> (\<exists>due. due_date t = Some due \<and> due \<le> now + 24 * 3600000)
           \<and> status t \<noteq> js ''done'')"
  proof
    fix t show "due_soon_row now uid t = (user_id t = uid
           \<and> (\<exists>due. due_date t = Some due \<and> due \<le> now + 24 * 3600000)
           \<and> status t \<noteq> js ''done'')"
      by (cases "due_date t") (auto simp: due_soon_row_def)
  qed
  then show ?thesis
    by (simp add: get_due_soon_def mset_order_by sorted_order_by)
qed

text \<open>
  With a password that is a string, the login fails in the same way for an unknown
  address and for a wrong password.
\<close>

lemma login_same_failure:
  assumes "select_user L us (lb_email b) = Some []"
    and "select_user L' us' (lb_email b') = Some (user # rest)"
    and "lb_password b' = JStr p"
    and "\<not> bcrypt_compare L' p (u_password_hash user)"
  shows "login L us b = login L' us' b'
           \<and> login L us b = Reply 400 (Msg (js ''Email ou mot de passe incorrect.''))"
  using assms by (simp add: login_def)


section \<open>Authentication fails differently without a password\<close>

text \<open>
  C5 does not hold of the code: when the request has no password (or one that is not a
  string), \<open>bcrypt.compare\<close> rejects for a registered address and the handler answers
  500, while the same request for an unknown address is answered 400 with the generic
  message. The two answers tell whether the address is registered.
\<close>

theorem login_without_password_tells_known_email:
  "login L ex_users \<lparr>lb_email = JStr (js ''a@x.org''), lb_password = JUndefined\<rparr>
     = Reply 500 (Text (js ''Erreur serveur''))
   \<and> login L ex_users \<lparr>lb_email = JStr (js ''b@x.org''), lb_password = JUndefined\<rparr>
     = Reply 400 (Msg (js ''Email ou mot de passe incorrect.''))"
proof -
  have a: "pg_in (js ''a@x.org'') = Some (js ''a@x.org'')"
    by (simp add: pg_in_def js_def is_high_surrogate_def is_low_surrogate_def)
  have b: "pg_in (js ''b@x.org'') = Some (js ''b@x.org'')"
    by (simp add: pg_in_def js_def is_high_surrogate_def is_low_surrogate_def)
  have "select_user L ex_users (JStr (js ''a@x.org'')) = Some ex_users"
    by (simp add: select_user_def a ex_users_def)
  moreover have "select_user L ex_users (JStr (js ''b@x.org'')) = Some []"
    by (simp add: select_user_def b ex_users_def) (simp add: js_def)
  ultimately show ?thesis
    by (simp add: login_def ex_users_def)
qed

section \<open>An update whose title is not a string\<close>

text \<open>
  C3 does not hold of the code: for a request whose title is the number 5 and whose
  status is not one of the three, the title is neither missing nor blank, so the status
  error is the one to report; but \<open>title.trim\<close> is not a function, the call throws
  outside the \<open>try\<close>, and no validation error is reported at all.
\<close>

theorem put_non_string_title_uncaught:
  "put_task L now d uid idp
     \<lparr>ub_title = JNum 5, ub_description = JUndefined, ub_status = JStr (js ''bogus''),
      ub_due_date = JUndefined, ub_reminder_date = JUndefined, ub_priority = JUndefined\<rparr>
     = (Uncaught, d)
   \<and> \<not> title_missing_or_blank (JNum 5)
   \<and> \<not> status_in_enum (JStr (js ''bogus''))"
  by (simp add: put_task_def put_validate_def title_missing_or_blank_def status_in_enum_def
        js_def)

section \<open>Tasks due soon\<close>

text \<open>
  C2 does not hold of the code: the query has no lower bound on the due date, so with
  the clock at 100000000 the route returns a task that was due at 0, before now.
\<close>

theorem due_soon_returns_overdue:
  "get_due_soon 100000000 \<lparr>tasks = [ex_task], next_id = 2\<rparr> 1 = Reply 200 (Rows [ex_task])
     \<and> due_date ex_task = Some 0 \<and> (0::int) < 100000000"
  by (simp add: get_due_soon_def due_soon_row_def order_by_def ex_task_def js_def)

section \<open>A task is out of reach of every other user\<close>




section \<open>Defaults of a created task\<close>

text \<open>
  C7, as amended. A create request that holds only a title, a string without the
  character U+0000, is answered 201 with a row that has this title (a surrogate without
  its partner stored as U+FFFD), the empty string as description, status todo, priority
  medium, due date and reminder date null and reminder-sent flag false, and that row is
  appended to the table. When the title contains U+0000 the INSERT raises: the answer is
  500 and the table is as it was.
\<close>

theorem create_with_only_title:
  "(0 \<notin> set s \<longrightarrow>
      post_task L now d uid
        \<lparr>pb_title = JStr s, pb_description = JUndefined, pb_due_date = JUndefined,
         pb_reminder_date = JUndefined, pb_priority = JUndefined\<rparr> =
        (Reply 201 (Row \<lparr>t_id = next_id d, title = Some (utf8_text s), description = [],
                          user_id = uid, status = js ''todo'', due_date = None,
                          reminder_date = None, priority = js ''medium'',
                          is_reminder_sent = False, created_at = now, updated_at = now\<rparr>),
         d\<lparr>tasks := tasks d @
                    [\<lparr>t_id = next_id d, title = Some (utf8_text s), description = [],
                      user_id = uid, status = js ''todo'', due_date = None,
                      reminder_date = None, priority = js ''medium'',
                      is_reminder_sent = False, created_at = now, updated_at = now\<rparr>],
           next_id := Suc (next_id d)\<rparr>))
   \<and> (0 \<in> set s \<longrightarrow>
      post_task L now d uid
        \<lparr>pb_title = JStr s, pb_description = JUndefined, pb_due_date = JUndefined,
         pb_reminder_date = JUndefined, pb_priority = JUndefined\<rparr> =
        (Reply 500 (Msg create_failed_msg), d))"
  by (simp add: post_task_def insert_values_title_only insert_task_def Let_def)

text \<open>C7: a plain title is stored, a title with U+0000 in it is refused.\<close>

theorem create_with_only_title_witness:
  "(0 :: 16 word) \<notin> set (js ''Write spec'')
   \<and> post_task ex_lib 7 ex_db 1
        \<lparr>pb_title = JStr (js ''Write spec''), pb_description = JUndefined,
         pb_due_date = JUndefined, pb_reminder_date = JUndefined, pb_priority = JUndefined\<rparr> =
        (Reply 201 (Row \<lparr>t_id = 2, title = Some (js ''Write spec''), description = [],
                          user_id = 1, status = js ''todo'', due_date = None,
                          reminder_date = None, priority = js ''medium'',
                          is_reminder_sent = False, created_at = 7, updated_at = 7\<rparr>),
         \<lparr>tasks = [ex_task,
                   \<lparr>t_id = 2, title = Some (js ''Write spec''), description = [],
                     user_id = 1, status = js ''todo'', due_date = None,
                     reminder_date = None, priority = js ''medium'',
                     is_reminder_sent = False, created_at = 7, updated_at = 7\<rparr>],
          next_id = 3\<rparr>)
   \<and> (0 :: 16 word) \<in> set (js ''a'' @ [0] @ js ''b'')
   \<and> post_task ex_lib 7 ex_db 1
        \<lparr>pb_title = JStr (js ''a'' @ [0] @ js ''b''), pb_description = JUndefined,
         pb_due_date = JUndefined, pb_reminder_date = JUndefined, pb_priority = JUndefined\<rparr> =
        (Reply 500 (Msg create_failed_msg), ex_db)"
proof -
  have n: "(0 :: 16 word) \<notin> set (js ''Write spec'')"
    by (simp add: js_def)
  have u: "utf8_text (js ''Write spec'') = js ''Write spec''"
    by (simp add: js_def is_high_surrogate_def is_low_surrogate_def)
  have z: "(0 :: 16 word) \<in> set (js ''a'' @ [0] @ js ''b'')"
    by simp
  from create_with_only_title [of "js ''Write spec''" ex_lib 7 ex_db 1] n u
  have ok: "post_task ex_lib 7 ex_db 1
        \<lparr>pb_title = JStr (js ''Write spec''), pb_description = JUndefined,
         pb_due_date = JUndefined, pb_reminder_date = JUndefined, pb_priority = JUndefined\<rparr> =
        (Reply 201 (Row \<lparr>t_id = 2, title = Some (js ''Write spec''), description = [],
                          user_id = 1, status = js ''todo'', due_date = None,
                          reminder_date = None, priority = js ''medium'',
                          is_reminder_sent = False, created_at = 7, updated_at = 7\<rparr>),
         \<lparr>tasks = [ex_task,
                   \<lparr>t_id = 2, title = Some (js ''Write spec''), description = [],
                     user_id = 1, status = js ''todo'', due_date = None,
                     reminder_date = None, priority = js ''medium'',
                     is_reminder_sent = False, created_at = 7, updated_at = 7\<rparr>],
          next_id = 3\<rparr>)"
    by (simp add: ex_db_def)
  from create_with_only_title [of "js ''a'' @ [0] @ js ''b''" ex_lib 7 ex_db 1] z
  have bad: "post_task ex_lib 7 ex_db 1
        \<lparr>pb_title = JStr (js ''a'' @ [0] @ js ''b''), pb_description = JUndefined,
         pb_due_date = JUndefined, pb_reminder_date = JUndefined, pb_priority = JUndefined\<rparr> =
        (Reply 500 (Msg create_failed_msg), ex_db)"
    by blast
  from n ok z bad show ?thesis
    by blast
qed

text \<open>
  C7 as stated fails: a request that supplies only the title \<open>a\<close>, U+0000, \<open>b\<close> gets no
  task back; the answer is 500 and the table still holds the one example task.
\<close>

theorem create_title_with_nul_fails:
  "post_task ex_lib 7 ex_db 1
     \<lparr>pb_title = JStr (js ''a'' @ [0] @ js ''b''), pb_description = JUndefined,
      pb_due_date = JUndefined, pb_reminder_date = JUndefined, pb_priority = JUndefined\<rparr> =
     (Reply 500 (Msg create_failed_msg), ex_db)
   \<and> tasks ex_db = [ex_task]"
  by (simp add: post_task_def insert_values_title_only ex_db_def)

section \<open>Creation does not check the title\<close>

text \<open>
  C4 does not hold of the code: POST /api/tasks has no validation, so a title of three
  spaces is stored as it is, although it is empty after trimming. The update route
  rejects the same title.
\<close>

theorem create_stores_blank_title:
  "post_task ex_lib 7 ex_db 1 ex_post =
     (Reply 201 (Row \<lparr>t_id = 2, title = Some (js ''   ''), description = [], user_id = 1,
                       status = js ''todo'', due_date = None, reminder_date = None,
                       priority = js ''medium'', is_reminder_sent = False, created_at = 7,
                       updated_at = 7\<rparr>),
      \<lparr>tasks = [ex_task,
                \<lparr>t_id = 2, title = Some (js ''   ''), description = [], user_id = 1,
                  status = js ''todo'', due_date = None, reminder_date = None,
                  priority = js ''medium'', is_reminder_sent = False, created_at = 7,
                  updated_at = 7\<rparr>],
       next_id = 3\<rparr>)
   \<and> trim (js ''   '') = []"
proof -
  have "utf8_text (js ''   '') = js ''   ''"
    by (simp add: js_def is_high_surrogate_def is_low_surrogate_def)
  moreover have "(0 :: 16 word) \<notin> set (js ''   '')"
    by (simp add: js_def)
  moreover have "trim (js ''   '') = []"
    by (simp add: js_def trim_def is_ws_def)
  ultimately show ?thesis
    by (simp add: post_task_def insert_values_title_only insert_task_def ex_post_def ex_db_def
          Let_def)
qed

section \<open>Dismissing a notification\<close>

text \<open>
  C6 does not hold of the code: the notifications are a list, to which a pass appends,
  and dismissing filters on the task identifier alone. A task that has a reminder and an
  overdue notification loses both when the reminder is dismissed.
\<close>

theorem dismiss_removes_every_entry_of_task:
  "checkReminders 100 [ex_task] [] =
     [\<lparr>n_id = 1, message = js ''Rappel: a'', n_type = js ''reminder''\<rparr>,
      \<lparr>n_id = 1, message = js ''En retard: a'', n_type = js ''overdue''\<rparr>]
   \<and> onDismiss \<lparr>n_id = 1, message = js ''Rappel: a'', n_type = js ''reminder''\<rparr>
       [\<lparr>n_id = 1, message = js ''Rappel: a'', n_type = js ''reminder''\<rparr>,
        \<lparr>n_id = 1, message = js ''En retard: a'', n_type = js ''overdue''\<rparr>] = []"
  by (simp add: checkReminders_def task_notifications_def isOverdue_def title_text_def
        onDismiss_def dismissNotification_def ex_task_def js_def)

section \<open>Marking a reminder as sent\<close>

text \<open>
  C8. For a task of the user, mark-reminder-sent answers 200 with the task's row with the
  flag set, the row is in the table afterwards, and a second call answers the same and
  leaves the table as the first left it. No call, whoever makes it on whatever
  identifier, takes the flag of any row from true to false.
\<close>

theorem mark_reminder_sent_idempotent:
  assumes "unique_ids d" and "t \<in> set (tasks d)" and "user_id t = uid"
  shows "(\<exists>d1. mark_reminder_sent d uid (Some (t_id t))
                 = (Reply 200 (Row (t\<lparr>is_reminder_sent := True\<rparr>)), d1)
           \<and> t\<lparr>is_reminder_sent := True\<rparr> \<in> set (tasks d1)
           \<and> mark_reminder_sent d1 uid (Some (t_id t))
                 = (Reply 200 (Row (t\<lparr>is_reminder_sent := True\<rparr>)), d1))
     \<and> list_all2 (\<lambda>x y. is_reminder_sent x \<longrightarrow> is_reminder_sent y)
          (tasks d) (tasks (snd (mark_reminder_sent d uid' idp)))"
proof -
  let ?t' = "t\<lparr>is_reminder_sent := True\<rparr>"
  let ?d1 = "d\<lparr>tasks := mark_rows (t_id t) uid (tasks d)\<rparr>"
  have first: "mark_reminder_sent d uid (Some (t_id t)) = (Reply 200 (Row ?t'), ?d1)"
    using assms by (rule mark_reminder_sent_owned)
  have mem: "?t' \<in> set (tasks ?d1)"
    using assms(2,3) by (simp add: mark_rows_mem)
  have u1: "unique_ids ?d1"
    using assms(1) by (simp add: unique_ids_def mark_rows_ids)
  have "mark_reminder_sent ?d1 uid (Some (t_id ?t')) =
          (Reply 200 (Row (?t'\<lparr>is_reminder_sent := True\<rparr>)),
           ?d1\<lparr>tasks := mark_rows (t_id ?t') uid (tasks ?d1)\<rparr>)"
    using u1 mem assms(3) by (intro mark_reminder_sent_owned) simp_all
  then have second: "mark_reminder_sent ?d1 uid (Some (t_id t)) = (Reply 200 (Row ?t'), ?d1)"
    by (simp add: mark_rows_idem)
  have mono: "list_all2 (\<lambda>x y. is_reminder_sent x \<longrightarrow> is_reminder_sent y)
          (tasks d) (tasks (snd (mark_reminder_sent d uid' idp)))"
    by (cases idp) (simp_all add: mark_reminder_sent_db mark_rows_flags list_all2_refl)
  from first mem second mono show ?thesis
    by blast
qed

text \<open>C8: the owner marks the example task twice.\<close>

theorem mark_reminder_sent_idempotent_witness:
  "unique_ids ex_db \<and> ex_task \<in> set (tasks ex_db) \<and> user_id ex_task = 1
    \<and> mark_reminder_sent ex_db 1 (Some (t_id ex_task))
        = (Reply 200 (Row (ex_task\<lparr>is_reminder_sent := True\<rparr>)),
           \<lparr>tasks = [ex_task\<lparr>is_reminder_sent := True\<rparr>], next_id = 2\<rparr>)
    \<and> mark_reminder_sent \<lparr>tasks = [ex_task\<lparr>is_reminder_sent := True\<rparr>], next_id = 2\<rparr> 1
          (Some (t_id ex_task))
        = (Reply 200 (Row (ex_task\<lparr>is_reminder_sent := True\<rparr>)),
           \<lparr>tasks = [ex_task\<lparr>is_reminder_sent := True\<rparr>], next_id = 2\<rparr>)"
proof -
  have h1: "unique_ids ex_db"
    by (simp add: unique_ids_def ex_db_def)
  have h2: "ex_task \<in> set (tasks ex_db)"
    by (simp add: ex_db_def)
  have h3: "user_id ex_task = 1"
    by (simp add: ex_task_def)
  from mark_reminder_sent_idempotent [OF h1 h2 h3, of 1 None]
  obtain d1 where
    a: "mark_reminder_sent ex_db 1 (Some (t_id ex_task))
          = (Reply 200 (Row (ex_task\<lparr>is_reminder_sent := True\<rparr>)), d1)"
    and b: "mark_reminder_sent d1 1 (Some (t_id ex_task))
          = (Reply 200 (Row (ex_task\<lparr>is_reminder_sent := True\<rparr>)), d1)"
    by blast
  have "snd (mark_reminder_sent ex_db 1 (Some (t_id ex_task)))
          = \<lparr>tasks = [ex_task\<lparr>is_reminder_sent := True\<rparr>], next_id = 2\<rparr>"
    by (simp add: mark_reminder_sent_def is_task_def ex_db_def ex_task_def)
  with a have "d1 = \<lparr>tasks = [ex_task\<lparr>is_reminder_sent := True\<rparr>], next_id = 2\<rparr>"
    by simp
  with a b h1 h2 h3 show ?thesis
    by simp
qed

text \<open>
  C10. When mark-reminder-sent answers 200, the row returned is a row of the table with
  the flag set and every other column as it was, the update timestamp included; every
  row of the table is as before or as before with the flag set, and the identifier
  sequence is unchanged.
\<close>

theorem mark_reminder_sent_frame:
  assumes "mark_reminder_sent d uid idp = (Reply 200 (Row r), d')"
  shows "(\<exists>t \<in> set (tasks d).
            r = t\<lparr>is_reminder_sent := True\<rparr>
          \<and> title r = title t \<and> description r = description t \<and> status r = status t
          \<and> priority r = priority t \<and> due_date r = due_date t
          \<and> reminder_date r = reminder_date t \<and> created_at r = created_at t
          \<and> updated_at r = updated_at t)
       \<and> list_all2 (\<lambda>x y. y = x \<or> y = x\<lparr>is_reminder_sent := True\<rparr>) (tasks d) (tasks d')
       \<and> next_id d' = next_id d"
proof -
  from assms obtain i where i: "idp = Some i"
    by (cases idp) (auto simp: mark_reminder_sent_def)
  from mark_reminder_sent_db [of d uid idp] assms i
  have d': "d' = d\<lparr>tasks := mark_rows i uid (tasks d)\<rparr>"
    by simp
  from assms i obtain t ts where "filter (is_task i uid) (tasks d) = t # ts"
    and r: "r = t\<lparr>is_reminder_sent := True\<rparr>"
    by (cases "filter (is_task i uid) (tasks d)") (auto simp: mark_reminder_sent_def Let_def)
  then have "t \<in> set (filter (is_task i uid) (tasks d))"
    by simp
  then have "t \<in> set (tasks d)"
    by simp
  with r d' mark_rows_frame [of "tasks d" i uid] show ?thesis
    by auto
qed

text \<open>C10: the owner marks the example task; \<open>updated_at\<close> stays 0.\<close>

theorem mark_reminder_sent_frame_witness:
  "mark_reminder_sent ex_db 1 (Some 1)
     = (Reply 200 (Row (ex_task\<lparr>is_reminder_sent := True\<rparr>)),
        \<lparr>tasks = [ex_task\<lparr>is_reminder_sent := True\<rparr>], next_id = 2\<rparr>)
   \<and> updated_at (ex_task\<lparr>is_reminder_sent := True\<rparr>) = updated_at ex_task
   \<and> list_all2 (\<lambda>x y. y = x \<or> y = x\<lparr>is_reminder_sent := True\<rparr>) (tasks ex_db)
        (tasks \<lparr>tasks = [ex_task\<lparr>is_reminder_sent := True\<rparr>], next_id = 2\<rparr>)"
proof -
  have run: "mark_reminder_sent ex_db 1 (Some 1)
     = (Reply 200 (Row (ex_task\<lparr>is_reminder_sent := True\<rparr>)),
        \<lparr>tasks = [ex_task\<lparr>is_reminder_sent := True\<rparr>], next_id = 2\<rparr>)"
    by (simp add: mark_reminder_sent_def is_task_def ex_db_def ex_task_def)
  from mark_reminder_sent_frame [OF run] run show ?thesis
    by simp
qed

section \<open>An update replaces every field\<close>



end
